theory Spec2Isabelle
  imports Main "HOL-Library.Signed_Division"
begin

section \<open>Scores, moves and the constants of the engine\<close>

text \<open>
  The search of \<^verbatim>\<open>search.cpp\<close> computes with \<^verbatim>\<open>Value\<close>, \<^verbatim>\<open>Depth\<close> and \<^verbatim>\<open>Move\<close>, all of
  them C++ integers (\<^verbatim>\<open>Value\<close> and \<^verbatim>\<open>Move\<close> are enums over \<^verbatim>\<open>int\<close>, \<^verbatim>\<open>Depth\<close> is \<^verbatim>\<open>int\<close>).
  Scores stay within a few tens of thousands and plies below \<^verbatim>\<open>MAX_PLY\<close>, far from the
  limits of a 32-bit \<^verbatim>\<open>int\<close>, so the model computes on \<open>int\<close>, and says nothing of
  what a C \<^verbatim>\<open>int\<close> does past its limits; the two divisions of the aspiration loop are C
  divisions, which truncate towards zero (\<open>sdiv\<close>).

  The model is that of the engine's default build, in which \<^verbatim>\<open>assert\<close> expands to nothing.
  Where an assertion of the source matters to a property it is kept as a predicate.
\<close>

type_synonym Value = int
type_synonym Depth = int
type_synonym Move = int
type_synonym Key = nat

text \<open>
  The named scores (\<^verbatim>\<open>VALUE_MATE\<close>, \<^verbatim>\<open>VALUE_INFINITE\<close>, ...), \<^verbatim>\<open>MOVE_NONE\<close>, \<^verbatim>\<open>PawnValueMg\<close>,
  \<^verbatim>\<open>MAX_PLY\<close> and the helpers \<^verbatim>\<open>mate_in\<close> and \<^verbatim>\<open>mated_in\<close> are declared in the header \<^verbatim>\<open>types.h\<close>, which
  \<^verbatim>\<open>search.cpp\<close> includes. Every function below takes them as a parameter, the record
  \<open>c\<close>, so that what is proved holds for whatever values the header gives them.
\<close>

record engine_consts =
  VALUE_ZERO :: Value
  VALUE_DRAW :: Value
  VALUE_KNOWN_WIN :: Value
  VALUE_MATE :: Value
  VALUE_INFINITE :: Value
  VALUE_NONE :: Value
  VALUE_TB_WIN_IN_MAX_PLY :: Value
  VALUE_TB_LOSS_IN_MAX_PLY :: Value
  VALUE_MATE_IN_MAX_PLY :: Value
  VALUE_MATED_IN_MAX_PLY :: Value
  PawnValueMg :: Value
  MOVE_NONE :: Move
  MAX_PLY :: int
  mate_in :: "int \<Rightarrow> Value"
  mated_in :: "int \<Rightarrow> Value"

text \<open>
  One concrete configuration, used to run the model: the values these names have in the
  Stockfish line of engines this one belongs to (\<^verbatim>\<open>MAX_PLY = 246\<close>, mate at 32000).
\<close>

definition types_h :: engine_consts where
  "types_h = \<lparr> VALUE_ZERO = 0, VALUE_DRAW = 0, VALUE_KNOWN_WIN = 10000,
               VALUE_MATE = 32000, VALUE_INFINITE = 32001, VALUE_NONE = 32002,
               VALUE_TB_WIN_IN_MAX_PLY = 31508, VALUE_TB_LOSS_IN_MAX_PLY = - 31508,
               VALUE_MATE_IN_MAX_PLY = 31754, VALUE_MATED_IN_MAX_PLY = - 31754,
               PawnValueMg = 126, MOVE_NONE = 0, MAX_PLY = 246,
               mate_in = (\<lambda>ply. 32000 - ply), mated_in = (\<lambda>ply. - 32000 + ply) \<rparr>"

text \<open>
  The order of the score bands on which the engine relies: the tablebase band lies
  outside the ordinary scores and inside the mate band, a mate in ten plies is a mate
  score, and \<^verbatim>\<open>VALUE_NONE\<close> is above every score.
\<close>

definition band_order :: "engine_consts \<Rightarrow> bool" where
  "band_order c \<longleftrightarrow>
     VALUE_TB_LOSS_IN_MAX_PLY c < VALUE_TB_WIN_IN_MAX_PLY c
   \<and> VALUE_TB_WIN_IN_MAX_PLY c \<le> VALUE_MATE_IN_MAX_PLY c
   \<and> VALUE_MATE_IN_MAX_PLY c + 10 \<le> VALUE_MATE c
   \<and> VALUE_MATE c < VALUE_NONE c"

section \<open>Small helpers of the search\<close>

text \<open>\<^verbatim>\<open>futility_margin(d, improving)\<close>: the \<^verbatim>\<open>bool\<close> is promoted to 0 or 1.\<close>

definition futility_margin :: "Depth \<Rightarrow> bool \<Rightarrow> Value" where
  "futility_margin d improving = 214 * (d - (if improving then 1 else 0))"

text \<open>\<^verbatim>\<open>stat_bonus(d)\<close>, the history bonus for a depth.\<close>

definition stat_bonus :: "Depth \<Rightarrow> int" where
  "stat_bonus d = (if d > 14 then 73 else 6 * d * d + 229 * d - 215)"

section \<open>Scores in the transposition table\<close>

text \<open>
  \<^verbatim>\<open>value_to_tt\<close> turns a mate or tablebase score counted from the root into one counted
  from the current position. Its first line is \<^verbatim>\<open>assert(v != VALUE_NONE)\<close>.
\<close>

definition value_to_tt :: "engine_consts \<Rightarrow> Value \<Rightarrow> int \<Rightarrow> Value" where
  "value_to_tt c v ply =
     (if v \<ge> VALUE_TB_WIN_IN_MAX_PLY c then v + ply
      else if v \<le> VALUE_TB_LOSS_IN_MAX_PLY c then v - ply
      else v)"

text \<open>
  \<^verbatim>\<open>value_from_tt\<close> goes back, and replaces a mate score that the fifty-move counter
  \<^verbatim>\<open>r50c\<close> may make false by the best score below the mate band.
\<close>

definition value_from_tt :: "engine_consts \<Rightarrow> Value \<Rightarrow> int \<Rightarrow> int \<Rightarrow> Value" where
  "value_from_tt c v ply r50c =
     (if v = VALUE_NONE c then VALUE_NONE c
      else if v \<ge> VALUE_TB_WIN_IN_MAX_PLY c then
        (if v \<ge> VALUE_MATE_IN_MAX_PLY c \<and> VALUE_MATE c - v > 99 - r50c
         then VALUE_MATE_IN_MAX_PLY c - 1
         else v - ply)
      else if v \<le> VALUE_TB_LOSS_IN_MAX_PLY c then
        (if v \<le> VALUE_MATED_IN_MAX_PLY c \<and> VALUE_MATE c + v > 99 - r50c
         then VALUE_MATED_IN_MAX_PLY c + 1
         else v + ply)
      else v)"

section \<open>The bonuses of \<^verbatim>\<open>update_all_stats\<close>\<close>

text \<open>
  \<^verbatim>\<open>update_all_stats\<close> first computes two bonuses from the depth, the best value and beta,
  and then feeds them to the history tables. The pair is what this function returns.
\<close>

definition update_all_stats_bonus :: "engine_consts \<Rightarrow> Value \<Rightarrow> Value \<Rightarrow> Depth \<Rightarrow> int \<times> int" where
  "update_all_stats_bonus c bestValue beta depth =
     (let bonus1 = stat_bonus (depth + 1);
          bonus2 = (if bestValue > beta + PawnValueMg c then bonus1
                    else min bonus1 (stat_bonus depth))
      in (bonus1, bonus2))"

section \<open>Principal variations in memory\<close>

text \<open>
  A principal variation is a C array of moves that ends with \<^verbatim>\<open>MOVE_NONE\<close>, handed around
  as a \<^verbatim>\<open>Move*\<close>. The memory holds the arrays by number; a pointer is an array and an index
  into it, and the null pointer is \<open>None\<close>. Reading or writing outside an array is an
  error of the model (the C program has no defined behaviour there).
\<close>

datatype error = Out_of_bounds | Null_pointer | Not_found

type_synonym ptr = "nat \<times> nat"
type_synonym memory = "nat \<Rightarrow> Move list"

definition load :: "memory \<Rightarrow> ptr \<Rightarrow> error + Move" where
  "load m p = (if snd p < length (m (fst p)) then Inr (m (fst p) ! snd p) else Inl Out_of_bounds)"

definition store :: "memory \<Rightarrow> ptr \<Rightarrow> Move \<Rightarrow> error + memory" where
  "store m p v =
     (if snd p < length (m (fst p)) then Inr (m(fst p := (m (fst p))[snd p := v]))
      else Inl Out_of_bounds)"

definition next_ptr :: "ptr \<Rightarrow> ptr" where
  "next_ptr p = (fst p, Suc (snd p))"

text \<open>
  The loop of \<^verbatim>\<open>update_pv\<close> for a child that is not null:
  \<^verbatim>\<open>for (...; *childPv != MOVE_NONE; ) *pv++ = *childPv++;  *pv = MOVE_NONE;\<close>
\<close>

function update_pv_copy :: "engine_consts \<Rightarrow> memory \<Rightarrow> ptr \<Rightarrow> ptr \<Rightarrow> error + memory" where
  "update_pv_copy c m pv childPv =
     (case load m childPv of
        Inl e \<Rightarrow> Inl e
      | Inr x \<Rightarrow>
          if x \<noteq> MOVE_NONE c then
            (case store m pv x of
               Inl e \<Rightarrow> Inl e
             | Inr m' \<Rightarrow> update_pv_copy c m' (next_ptr pv) (next_ptr childPv))
          else store m pv (MOVE_NONE c))"
  by pat_completeness auto
termination
  by (relation "measure (\<lambda>(c, m, pv, childPv). length (m (fst childPv)) - snd childPv)")
     (auto simp: load_def store_def next_ptr_def split: if_splits)

declare update_pv_copy.simps [simp del]

text \<open>\<^verbatim>\<open>update_pv(pv, move, childPv)\<close>: the move, then the child's line, then \<^verbatim>\<open>MOVE_NONE\<close>.\<close>

definition update_pv :: "engine_consts \<Rightarrow> memory \<Rightarrow> ptr \<Rightarrow> Move \<Rightarrow> ptr option \<Rightarrow> error + memory" where
  "update_pv c m pv move childPv =
     (case store m pv move of
        Inl e \<Rightarrow> Inl e
      | Inr m' \<Rightarrow>
          (case childPv of
             None \<Rightarrow> store m' (next_ptr pv) (MOVE_NONE c)
           | Some cp \<Rightarrow> update_pv_copy c m' (next_ptr pv) cp))"

text \<open>
  The line an array holds from a pointer on, up to the terminator:
  \<^verbatim>\<open>for (Move* m = p; *m != MOVE_NONE; ++m) ...\<close>
\<close>

definition read_pv :: "engine_consts \<Rightarrow> memory \<Rightarrow> ptr \<Rightarrow> error + Move list" where
  "read_pv c m p =
     (let rest = drop (snd p) (m (fst p))
      in if MOVE_NONE c \<in> set rest then Inr (takeWhile (\<lambda>x. x \<noteq> MOVE_NONE c) rest)
         else Inl Out_of_bounds)"

section \<open>The aspiration loop of \<^verbatim>\<open>Thread::search\<close>\<close>









section \<open>Nodes of the search\<close>

text \<open>
  \<^verbatim>\<open>search\<close> and \<^verbatim>\<open>qsearch\<close> are long functions that call the evaluation, the move
  generator and themselves. The model follows the source block by block: each block
  below is one stretch of the function body, a function from the state before it to the
  state after it, together with where control goes next. What a block asks of the
  position is a field of \<open>position\<close>; what it reads or writes of the thread, of the
  transposition table and of the arrays of principal variations is in \<open>engine\<close>; the
  locals of the function and the fields of its stack entry \<^verbatim>\<open>ss\<close> are in \<open>frame\<close>.
\<close>

datatype NodeType = NonPV | PV | Root

datatype Bound = BOUND_NONE | BOUND_UPPER | BOUND_LOWER | BOUND_EXACT

text \<open>The arguments of one call of \<^verbatim>\<open>tte->save(key, value, pv, bound, depth, move, eval)\<close>.\<close>

record tt_save =
  sv_key :: Key
  sv_value :: Value
  sv_pv :: bool
  sv_bound :: Bound
  sv_depth :: Depth
  sv_move :: Move
  sv_eval :: Value

record RootMove =
  rm_pv :: "Move list"
  rm_score :: Value
  rm_selDepth :: int

text \<open>
  The history tables are not modelled; an update of them is recorded by its kind and its
  bonus: a call of \<^verbatim>\<open>update_all_stats\<close> for a best move, with its two bonuses, or the bonus
  for the prior countermove.
\<close>

datatype stat_event = All_stats Move "int \<times> int" | Countermove_bonus int

record position =
  has_game_cycle :: "int \<Rightarrow> bool"
  is_draw :: "int \<Rightarrow> bool"
  king_danger :: bool
  evaluate :: Value

record engine =
  nmpGuard :: bool
  fullSearch :: bool
  rootDepth :: Depth
  pvIdx :: nat
  selDepth :: int
  bestMoveChanges :: nat
  rootMoves :: "RootMove list"
  pv_mem :: memory
  tt_saves :: "tt_save list"
  stat_log :: "stat_event list"

text \<open>
  \<open>staticEval_2\<close> and \<open>staticEval_4\<close> are \<^verbatim>\<open>(ss-2)->staticEval\<close> and \<^verbatim>\<open>(ss-4)->staticEval\<close>,
  \<open>prev_ttPv\<close> and \<open>next_ttPv\<close> are \<^verbatim>\<open>(ss-1)->ttPv\<close> and \<^verbatim>\<open>(ss+1)->ttPv\<close>, \<open>pv\<close> is \<^verbatim>\<open>ss->pv\<close>
  and \<open>child_pv\<close> is \<^verbatim>\<open>(ss+1)->pv\<close>. The two arrays of searched moves are lists, their
  counters the lengths.
\<close>

record frame =
  alpha :: Value
  beta :: Value
  depth :: Depth
  ply :: int
  inCheck :: bool
  excludedMove :: Move
  posKey :: Key
  ttPv :: bool
  prev_ttPv :: bool
  next_ttPv :: bool
  gameCycle :: bool
  kingDanger :: bool
  improving :: bool
  priorCapture :: bool
  eval :: Value
  staticEval :: Value
  staticEval_2 :: Value
  staticEval_4 :: Value
  bestValue :: Value
  bestMove :: Move
  moveCount :: int
  capturesSearched :: "Move list"
  quietsSearched :: "Move list"
  pv :: ptr
  child_pv :: "ptr option"

text \<open>
  Where control goes after a block: out of the function with a value, into \<^verbatim>\<open>qsearch\<close>,
  to the label \<^verbatim>\<open>moves_loop\<close>, on to the next statement, or out of the loop over the moves.
\<close>

datatype flow = Return Value | Qsearch | Moves_loop | Next | Break

subsection \<open>The start of \<^verbatim>\<open>search\<close>\<close>

text \<open>
  The check for a game cycle, inside \<^verbatim>\<open>if (!rootNode)\<close>. The frame is the one after the
  initialisation of the node and the probe of the transposition table, which set
  \<^verbatim>\<open>posKey\<close> and \<^verbatim>\<open>ss->ttPv\<close>.
\<close>

definition search_cycle_check ::
  "engine_consts \<Rightarrow> position \<Rightarrow> engine \<times> frame \<Rightarrow> flow \<times> engine \<times> frame" where
  "search_cycle_check c pos s =
     (case s of (e, f) \<Rightarrow>
        if has_game_cycle pos (ply f) then
          if VALUE_DRAW c \<ge> beta f then
            (Return (VALUE_DRAW c),
             e\<lparr>tt_saves := tt_saves e @
                 [\<lparr> sv_key = posKey f, sv_value = VALUE_DRAW c, sv_pv = ttPv f,
                    sv_bound = BOUND_UPPER, sv_depth = depth f, sv_move = MOVE_NONE c,
                    sv_eval = VALUE_NONE c \<rparr>]\<rparr>,
             f)
          else (Next, e, f\<lparr>gameCycle := True, alpha := max (alpha f) (VALUE_DRAW c)\<rparr>)
        else (Next, e, f))"

text \<open>Step 2: a draw by rule, a stop, or the ply limit. \<open>stop\<close> is what \<^verbatim>\<open>Threads.stop\<close> holds.\<close>

definition search_draw_check :: "engine_consts \<Rightarrow> position \<Rightarrow> bool \<Rightarrow> frame \<Rightarrow> flow" where
  "search_draw_check c pos stop f =
     (if is_draw pos (ply f) then Return (VALUE_DRAW c)
      else if stop \<or> ply f \<ge> MAX_PLY c then
        Return (if ply f \<ge> MAX_PLY c \<and> \<not> inCheck f then evaluate pos else VALUE_DRAW c)
      else Next)"

text \<open>Step 3, as this engine has it: only the upper half of mate distance pruning.\<close>

definition search_mate_distance :: "engine_consts \<Rightarrow> frame \<Rightarrow> flow" where
  "search_mate_distance c f =
     (if alpha f \<ge> mate_in c (ply f + 1) then Return (mate_in c (ply f + 1)) else Next)"

text \<open>
  From the entry of \<^verbatim>\<open>search\<close> to the end of step 3: a depth of zero or less goes to
  \<^verbatim>\<open>qsearch\<close>, and the three checks are made at every node but the root.
\<close>

definition search_prologue ::
  "engine_consts \<Rightarrow> NodeType \<Rightarrow> position \<Rightarrow> bool \<Rightarrow> engine \<times> frame \<Rightarrow> flow \<times> engine \<times> frame" where
  "search_prologue c nt pos stop s =
     (if depth (snd s) \<le> 0 then (Qsearch, s)
      else if nt \<noteq> Root then
        (case search_cycle_check c pos s of
           (Next, e, f) \<Rightarrow>
             (case search_draw_check c pos stop f of
                Next \<Rightarrow> (search_mate_distance c f, e, f)
              | r \<Rightarrow> (r, e, f))
         | r \<Rightarrow> r)
      else (Next, s))"

subsection \<open>The start of \<^verbatim>\<open>qsearch\<close>\<close>

text \<open>
  The check for a game cycle of \<^verbatim>\<open>qsearch\<close>. It comes before the probe of the
  transposition table, and returns the draw score without a call of \<^verbatim>\<open>save\<close>.
\<close>

definition qsearch_cycle_check ::
  "engine_consts \<Rightarrow> position \<Rightarrow> engine \<times> frame \<Rightarrow> flow \<times> engine \<times> frame" where
  "qsearch_cycle_check c pos s =
     (case s of (e, f) \<Rightarrow>
        if has_game_cycle pos (ply f) then
          if VALUE_DRAW c \<ge> beta f then (Return (VALUE_DRAW c), e, f)
          else (Next, e, f\<lparr>alpha := max (alpha f) (VALUE_DRAW c), gameCycle := True\<rparr>)
        else (Next, e, f))"

subsection \<open>Futility pruning\<close>

text \<open>
  The flag \<^verbatim>\<open>improving\<close>: the static evaluation is better than the one two plies ago, or
  four plies ago when that one is missing.
\<close>

definition improving_of :: "engine_consts \<Rightarrow> frame \<Rightarrow> bool" where
  "improving_of c f =
     (if staticEval_2 f = VALUE_NONE c
      then staticEval f > staticEval_4 f \<or> staticEval_4 f = VALUE_NONE c
      else staticEval f > staticEval_2 f)"

text \<open>
  From the last line of step 6 to the end of step 7. A node that is not in check leaves
  for \<^verbatim>\<open>moves_loop\<close> when the thread's \<^verbatim>\<open>fullSearch\<close> is set. The early pruning is entered
  only outside the verification search of the null move (\<^verbatim>\<open>nmpGuard\<close>) and for an
  evaluation below twice \<^verbatim>\<open>VALUE_KNOWN_WIN\<close> in absolute value; \<^verbatim>\<open>kingDanger\<close>, false since
  the node was initialised, is asked of the position from root depth 11 on and blocks the
  pruning. \<^verbatim>\<open>!excludedMove\<close> tests the move against zero.
\<close>

definition futility_pruning ::
  "engine_consts \<Rightarrow> NodeType \<Rightarrow> position \<Rightarrow> engine \<Rightarrow> frame \<Rightarrow> flow \<times> frame" where
  "futility_pruning c nt pos e f =
     (if \<not> inCheck f \<and> fullSearch e then (Moves_loop, f)
      else
        let f1 = f\<lparr>improving := improving_of c f\<rparr> in
        if nt = NonPV \<and> excludedMove f1 = 0 \<and> \<not> gameCycle f1 \<and> \<not> nmpGuard e
           \<and> \<bar>eval f1\<bar> < 2 * VALUE_KNOWN_WIN c
        then
          let f2 = f1\<lparr>kingDanger := (if rootDepth e > 10 then king_danger pos else False)\<rparr> in
          if depth f2 < 6 \<and> \<not> kingDanger f2 \<and> \<bar>alpha f2\<bar> < VALUE_KNOWN_WIN c
             \<and> eval f2 - futility_margin (depth f2) (improving f2) \<ge> beta f2
             \<and> eval f2 < VALUE_KNOWN_WIN c
          then (Return (eval f2), f2)
          else (Next, f2)
        else (Next, f1))"

subsection \<open>After a move has been searched\<close>

text \<open>
  \<^verbatim>\<open>std::find(rootMoves.begin(), rootMoves.end(), move)\<close>: a root move equals a move when
  its line starts with it.
\<close>

fun find_root_move :: "RootMove list \<Rightarrow> Move \<Rightarrow> nat option" where
  "find_root_move [] move = None"
| "find_root_move (rm # rms) move =
     (if rm_pv rm \<noteq> [] \<and> hd (rm_pv rm) = move then Some 0
      else map_option Suc (find_root_move rms move))"

text \<open>The update of the root move, at the root only.\<close>

definition update_root_move ::
  "engine_consts \<Rightarrow> engine \<Rightarrow> frame \<Rightarrow> Move \<Rightarrow> Value \<Rightarrow> error + engine" where
  "update_root_move c e f move v =
     (case find_root_move (rootMoves e) move of
        None \<Rightarrow> Inl Not_found
      | Some k \<Rightarrow>
          let rm = rootMoves e ! k in
          if moveCount f = 1 \<or> v > alpha f then
            (case child_pv f of
               None \<Rightarrow> Inl Null_pointer
             | Some cp \<Rightarrow>
                 (case read_pv c (pv_mem e) cp of
                    Inl er \<Rightarrow> Inl er
                  | Inr line \<Rightarrow>
                      Inr (e\<lparr>rootMoves := (rootMoves e)
                                [k := rm\<lparr>rm_score := v, rm_selDepth := selDepth e,
                                        rm_pv := take 1 (rm_pv rm) @ line\<rparr>],
                             bestMoveChanges :=
                               (if moveCount f > 1 then Suc (bestMoveChanges e)
                                else bestMoveChanges e)\<rparr>)))
          else Inr (e\<lparr>rootMoves := (rootMoves e)[k := rm\<lparr>rm_score := - VALUE_INFINITE c\<rparr>]\<rparr>))"

text \<open>The last statement of the loop body: a move that is not the best one is remembered.\<close>

definition remember_searched :: "Move \<Rightarrow> bool \<Rightarrow> frame \<Rightarrow> frame" where
  "remember_searched move captureOrPromotion f =
     (if move \<noteq> bestMove f then
        (if captureOrPromotion \<and> length (capturesSearched f) < 32
         then f\<lparr>capturesSearched := capturesSearched f @ [move]\<rparr>
         else if \<not> captureOrPromotion \<and> length (quietsSearched f) < 64
         then f\<lparr>quietsSearched := quietsSearched f @ [move]\<rparr>
         else f)
      else f)"

text \<open>
  Step 19, from the test of \<^verbatim>\<open>Threads.stop\<close> to the end of the loop body: \<open>v\<close> is the value
  the search of \<open>move\<close> has just returned and \<open>stop\<close> what the flag holds.
\<close>

definition check_new_best ::
  "engine_consts \<Rightarrow> NodeType \<Rightarrow> bool \<Rightarrow> Move \<Rightarrow> Value \<Rightarrow> bool \<Rightarrow> engine \<times> frame
     \<Rightarrow> error + (flow \<times> engine \<times> frame)" where
  "check_new_best c nt stop move v captureOrPromotion s =
     (case s of (e, f) \<Rightarrow>
        if stop then Inr (Return (VALUE_ZERO c), e, f)
        else
          (case (if nt = Root then update_root_move c e f move v else Inr e) of
             Inl er \<Rightarrow> Inl er
           | Inr e1 \<Rightarrow>
               if v > bestValue f then
                 (let f1 = f\<lparr>bestValue := v\<rparr> in
                  if v > alpha f1 then
                    (let f2 = f1\<lparr>bestMove := move\<rparr> in
                     case (if nt = PV then update_pv c (pv_mem e1) (pv f2) move (child_pv f2)
                           else Inr (pv_mem e1)) of
                       Inl er \<Rightarrow> Inl er
                     | Inr m \<Rightarrow>
                         if nt \<noteq> NonPV \<and> v < beta f2
                         then Inr (Next, e1\<lparr>pv_mem := m\<rparr>,
                                   remember_searched move captureOrPromotion (f2\<lparr>alpha := v\<rparr>))
                         else Inr (Break, e1\<lparr>pv_mem := m\<rparr>, f2))
                  else Inr (Next, e1, remember_searched move captureOrPromotion f1))
               else Inr (Next, e1, remember_searched move captureOrPromotion f)))"

subsection \<open>After the loop over the moves\<close>

text \<open>
  Step 20 and the write to the transposition table, to the \<^verbatim>\<open>return bestValue\<close> that ends
  \<^verbatim>\<open>search\<close>. \<^verbatim>\<open>excludedMove ? ...\<close> and \<^verbatim>\<open>else if (bestMove)\<close> test a move against zero.
\<close>

definition search_epilogue ::
  "engine_consts \<Rightarrow> NodeType \<Rightarrow> engine \<times> frame \<Rightarrow> Value \<times> engine \<times> frame" where
  "search_epilogue c nt s =
     (case s of (e, f) \<Rightarrow>
        let bv = (if moveCount f = 0 then
                    (if excludedMove f \<noteq> 0 then alpha f
                     else if inCheck f then mated_in c (ply f)
                     else VALUE_DRAW c)
                  else bestValue f);
            events = (if moveCount f = 0 then []
                      else if bestMove f \<noteq> 0 then
                        [All_stats (bestMove f) (update_all_stats_bonus c bv (beta f) (depth f))]
                      else if (depth f \<ge> 3 \<or> nt \<noteq> NonPV) \<and> \<not> priorCapture f then
                        [Countermove_bonus (stat_bonus (depth f))]
                      else []);
            tp = (if bv \<le> alpha f then ttPv f \<or> (prev_ttPv f \<and> depth f > 3)
                  else if depth f > 3 then ttPv f \<and> next_ttPv f
                  else ttPv f);
            saves = (if excludedMove f = 0 \<and> \<not> (nt = Root \<and> pvIdx e \<noteq> 0) then
                       [\<lparr> sv_key = posKey f, sv_value = value_to_tt c bv (ply f), sv_pv = tp,
                          sv_bound = (if bv \<ge> beta f then BOUND_LOWER
                                      else if nt \<noteq> NonPV \<and> bestMove f \<noteq> 0 then BOUND_EXACT
                                      else BOUND_UPPER),
                          sv_depth = depth f, sv_move = bestMove f, sv_eval = staticEval f \<rparr>]
                     else [])
        in (bv,
            e\<lparr>tt_saves := tt_saves e @ saves, stat_log := stat_log e @ events\<rparr>,
            f\<lparr>bestValue := bv, ttPv := tp\<rparr>))"

subsection \<open>The loop over the moves\<close>












section \<open>A position, a thread and a node to run the model on\<close>

text \<open>
  A quiet position, and the same position with a game cycle; a thread at root depth 8
  whose memory holds an empty array of six moves (number 0) and a child's line of two
  moves with its terminator (number 1); and a node at ply 4 and depth 3 with the window
  \<open>(49, 50)\<close>, an evaluation of 800 and no move counted yet.
\<close>

definition quiet_pos :: position where
  "quiet_pos = \<lparr> has_game_cycle = (\<lambda>_. False), is_draw = (\<lambda>_. False),
                 king_danger = False, evaluate = 25 \<rparr>"

definition cycle_pos :: position where
  "cycle_pos = \<lparr> has_game_cycle = (\<lambda>_. True), is_draw = (\<lambda>_. False),
                 king_danger = False, evaluate = 25 \<rparr>"

definition two_lines :: memory where
  "two_lines = (\<lambda>a. if a = 0 then [0, 0, 0, 0, 0, 0] else if a = 1 then [77, 88, 0, 5] else [])"

definition engine0 :: engine where
  "engine0 = \<lparr> nmpGuard = False, fullSearch = False, rootDepth = 8, pvIdx = 0, selDepth = 5,
               bestMoveChanges = 0, rootMoves = [], pv_mem = two_lines, tt_saves = [],
               stat_log = [] \<rparr>"

definition frame0 :: frame where
  "frame0 = \<lparr> alpha = 49, beta = 50, depth = 3, ply = 4, inCheck = False, excludedMove = 0,
              posKey = 12345, ttPv = False, prev_ttPv = False, next_ttPv = False,
              gameCycle = False, kingDanger = False, improving = False, priorCapture = False,
              eval = 800, staticEval = 800, staticEval_2 = 700, staticEval_4 = 650,
              bestValue = - 32001, bestMove = 0, moveCount = 0,
              capturesSearched = [], quietsSearched = [], pv = (0, 0), child_pv = Some (1, 0) \<rparr>"



section \<open>Properties of the transposition-table scores\<close>

text \<open>
  C1. A score other than \<^verbatim>\<open>VALUE_NONE\<close> that lies strictly between
  \<^verbatim>\<open>VALUE_TB_LOSS_IN_MAX_PLY\<close> and \<^verbatim>\<open>VALUE_TB_WIN_IN_MAX_PLY\<close> survives the trip through the
  table: for every ply \<open>\<ge> 0\<close> and every fifty-move counter,
  \<^verbatim>\<open>value_from_tt(value_to_tt(v, ply), ply, r50c) = v\<close>.
\<close>

theorem tt_round_trip:
  assumes "v \<noteq> VALUE_NONE c"
    and "VALUE_TB_LOSS_IN_MAX_PLY c < v" and "v < VALUE_TB_WIN_IN_MAX_PLY c"
    and "0 \<le> n"
  shows "value_from_tt c (value_to_tt c v n) n r50c = v"
proof -
  from assms(2,3) have stored: "value_to_tt c v n = v"
    by (simp add: value_to_tt_def)
  from assms(1-3) show ?thesis
    unfolding stored by (simp add: value_from_tt_def)
qed

theorem tt_round_trip_witness:
  "(150::int) \<noteq> VALUE_NONE types_h \<and> VALUE_TB_LOSS_IN_MAX_PLY types_h < 150
   \<and> 150 < VALUE_TB_WIN_IN_MAX_PLY types_h \<and> (0::int) \<le> 7
   \<and> value_from_tt types_h (value_to_tt types_h 150 7) 7 12 = 150"
  using tt_round_trip [of 150 types_h 7 12] by (simp add: types_h_def)

text \<open>
  C2. What \<^verbatim>\<open>value_from_tt\<close> returns, for a ply \<open>\<ge> 0\<close>. \<^verbatim>\<open>VALUE_NONE\<close> passes through
  unchanged. Any other \<open>v \<ge> VALUE_TB_WIN_IN_MAX_PLY\<close> gives \<^verbatim>\<open>VALUE_MATE_IN_MAX_PLY - 1\<close>
  when \<open>v \<ge> VALUE_MATE_IN_MAX_PLY\<close> and \<open>VALUE_MATE - v > 99 - r50c\<close>, and \<open>v - ply\<close>
  otherwise; any other \<open>v \<le> VALUE_TB_LOSS_IN_MAX_PLY\<close> gives \<^verbatim>\<open>VALUE_MATED_IN_MAX_PLY + 1\<close>
  when \<open>v \<le> VALUE_MATED_IN_MAX_PLY\<close> and \<open>VALUE_MATE + v > 99 - r50c\<close>, and \<open>v + ply\<close>
  otherwise. In particular \<open>VALUE_MATE - 10\<close> stored at ply 5 and read at ply 5 with
  \<open>r50c = 95\<close> comes back as \<^verbatim>\<open>VALUE_MATE_IN_MAX_PLY - 1\<close>.
\<close>

theorem value_from_tt_cases:
  assumes "band_order c" and "0 \<le> n"
  shows "value_from_tt c (VALUE_NONE c) n r50c = VALUE_NONE c
       \<and> (v \<noteq> VALUE_NONE c \<and> v \<ge> VALUE_TB_WIN_IN_MAX_PLY c \<longrightarrow>
            value_from_tt c v n r50c =
              (if v \<ge> VALUE_MATE_IN_MAX_PLY c \<and> VALUE_MATE c - v > 99 - r50c
               then VALUE_MATE_IN_MAX_PLY c - 1 else v - n))
       \<and> (v \<noteq> VALUE_NONE c \<and> v \<le> VALUE_TB_LOSS_IN_MAX_PLY c \<longrightarrow>
            value_from_tt c v n r50c =
              (if v \<le> VALUE_MATED_IN_MAX_PLY c \<and> VALUE_MATE c + v > 99 - r50c
               then VALUE_MATED_IN_MAX_PLY c + 1 else v + n))
       \<and> value_from_tt c (value_to_tt c (VALUE_MATE c - 10) 5) 5 95
            = VALUE_MATE_IN_MAX_PLY c - 1"
proof -
  have none: "value_from_tt c (VALUE_NONE c) n r50c = VALUE_NONE c"
    by (simp add: value_from_tt_def)
  have win: "value_from_tt c v n r50c =
           (if v \<ge> VALUE_MATE_IN_MAX_PLY c \<and> VALUE_MATE c - v > 99 - r50c
            then VALUE_MATE_IN_MAX_PLY c - 1 else v - n)"
    if "v \<noteq> VALUE_NONE c" and "v \<ge> VALUE_TB_WIN_IN_MAX_PLY c"
    using that by (simp add: value_from_tt_def)
  have loss: "value_from_tt c v n r50c =
           (if v \<le> VALUE_MATED_IN_MAX_PLY c \<and> VALUE_MATE c + v > 99 - r50c
            then VALUE_MATED_IN_MAX_PLY c + 1 else v + n)"
    if "v \<noteq> VALUE_NONE c" and "v \<le> VALUE_TB_LOSS_IN_MAX_PLY c"
    using that assms(1) by (simp add: value_from_tt_def band_order_def)
  from assms(1) have "value_to_tt c (VALUE_MATE c - 10) 5 = VALUE_MATE c - 5"
    by (simp add: value_to_tt_def band_order_def)
  with assms(1) have example:
    "value_from_tt c (value_to_tt c (VALUE_MATE c - 10) 5) 5 95 = VALUE_MATE_IN_MAX_PLY c - 1"
    by (simp add: value_from_tt_def band_order_def)
  from none win loss example show ?thesis by blast
qed

theorem value_from_tt_cases_witness:
  "band_order types_h \<and> (0::int) \<le> 5
   \<and> value_from_tt types_h 31990 5 95 = VALUE_MATE_IN_MAX_PLY types_h - 1
   \<and> value_from_tt types_h 31990 5 0 = 31985
   \<and> value_from_tt types_h (- 31600) 5 0 = - 31595
   \<and> value_from_tt types_h (- 31990) 5 95 = VALUE_MATED_IN_MAX_PLY types_h + 1
   \<and> value_from_tt types_h (value_to_tt types_h 31990 5) 5 95 = 31753"
  using value_from_tt_cases [of types_h 5 95 31990]
        value_from_tt_cases [of types_h 5 0 31990]
        value_from_tt_cases [of types_h 5 0 "- 31600"]
        value_from_tt_cases [of types_h 5 95 "- 31990"]
  by (simp add: types_h_def band_order_def)

text \<open>
  C9. The bonuses of \<^verbatim>\<open>update_all_stats\<close>: \<open>bonus1 = stat_bonus (d + 1)\<close>, where
  \<open>stat_bonus x\<close> is 73 for \<open>x > 14\<close> and \<open>6 x\<^sup>2 + 229 x - 215\<close> otherwise, and \<open>bonus2\<close> is
  \<open>bonus1\<close> when \<open>bestValue > beta + PawnValueMg\<close> and the smaller of \<open>bonus1\<close> and
  \<open>stat_bonus d\<close> otherwise.
\<close>

theorem update_all_stats_bonus_eq:
  "update_all_stats_bonus c best b d =
     (stat_bonus (d + 1),
      if best > b + PawnValueMg c then stat_bonus (d + 1)
      else min (stat_bonus (d + 1)) (stat_bonus d))
   \<and> stat_bonus x = (if x > 14 then 73 else 6 * x * x + 229 * x - 215)"
  by (simp add: update_all_stats_bonus_def stat_bonus_def Let_def)

section \<open>Properties of \<^verbatim>\<open>update_pv\<close>\<close>

lemma drop_eq_ConsD:
  assumes "drop j l = y # ys"
  shows "j < length l \<and> l ! j = y \<and> drop (Suc j) l = ys"
proof -
  have j: "j < length l"
  proof (rule ccontr)
    assume "\<not> j < length l"
    then have "drop j l = []" by simp
    with assms show False by simp
  qed
  from Cons_nth_drop_Suc [OF j] assms show ?thesis using j by simp
qed

text \<open>
  The loop copies the child's line and closes it, when the two arrays are different ones
  and the destination has room.
\<close>

lemma update_pv_copy_line:
  assumes "a \<noteq> b"
    and "drop j (m b) = xs @ MOVE_NONE c # rest"
    and "MOVE_NONE c \<notin> set xs"
    and "i + length xs + 1 \<le> length (m a)"
  shows "update_pv_copy c m (a, i) (b, j) =
           Inr (m(a := take i (m a) @ xs @ MOVE_NONE c # drop (i + length xs + 1) (m a)))"
  using assms
proof (induction xs arbitrary: m i j)
  case Nil
  from Nil.prems(2) have "drop j (m b) = MOVE_NONE c # rest" by simp
  from drop_eq_ConsD [OF this] have j: "j < length (m b)" and at: "m b ! j = MOVE_NONE c"
    by simp_all
  from Nil.prems(4) have i: "i < length (m a)" by simp
  have "update_pv_copy c m (a, i) (b, j) = store m (a, i) (MOVE_NONE c)"
    by (subst update_pv_copy.simps) (simp add: load_def j at)
  also have "\<dots> = Inr (m(a := (m a)[i := MOVE_NONE c]))"
    by (simp add: store_def i)
  also have "(m a)[i := MOVE_NONE c] = take i (m a) @ MOVE_NONE c # drop (Suc i) (m a)"
    using i by (rule upd_conv_take_nth_drop)
  finally show ?case by simp
next
  case (Cons x xs)
  from Cons.prems(2) have "drop j (m b) = x # (xs @ MOVE_NONE c # rest)" by simp
  from drop_eq_ConsD [OF this] have j: "j < length (m b)" and at: "m b ! j = x"
    and dj: "drop (Suc j) (m b) = xs @ MOVE_NONE c # rest"
    by simp_all
  from Cons.prems(3) have x: "x \<noteq> MOVE_NONE c" and xs: "MOVE_NONE c \<notin> set xs" by auto
  from Cons.prems(4) have i: "i < length (m a)" by simp
  define m' where "m' = m(a := (m a)[i := x])"
  have m'b: "m' b = m b" using Cons.prems(1) by (simp add: m'_def)
  have m'a: "m' a = (m a)[i := x]" by (simp add: m'_def)
  have len: "Suc i + length xs + 1 \<le> length (m' a)"
    using Cons.prems(4) by (simp add: m'a)
  have dropj: "drop (Suc j) (m' b) = xs @ MOVE_NONE c # rest"
    using dj by (simp add: m'b)
  have ih: "update_pv_copy c m' (a, Suc i) (b, Suc j) =
           Inr (m'(a := take (Suc i) (m' a) @ xs @ MOVE_NONE c # drop (Suc i + length xs + 1) (m' a)))"
    by (rule Cons.IH [OF Cons.prems(1) dropj xs len])
  have tk: "take (Suc i) ((m a)[i := x]) = take i (m a) @ [x]"
    using i by (simp add: take_Suc_conv_app_nth)
  have step: "update_pv_copy c m (a, i) (b, j) = update_pv_copy c m' (a, Suc i) (b, Suc j)"
    by (subst update_pv_copy.simps) (simp add: load_def store_def next_ptr_def j at i x m'_def)
  show ?case
  proof -
    have "m'(a := take (Suc i) (m' a) @ xs @ MOVE_NONE c # drop (Suc i + length xs + 1) (m' a))
        = m(a := take i (m a) @ (x # xs) @ MOVE_NONE c # drop (i + length (x # xs) + 1) (m a))"
      unfolding m'a tk by (simp add: m'_def)
    with step ih show ?thesis by (simp add: fun_upd_def)
  qed
qed

lemma update_pv_line:
  assumes "fst dst \<noteq> fst cp"
    and "drop (snd cp) (m (fst cp)) = xs @ MOVE_NONE c # rest"
    and "MOVE_NONE c \<notin> set xs"
    and "snd dst + length xs + 2 \<le> length (m (fst dst))"
  shows "update_pv c m dst mv (Some cp) =
     Inr (m(fst dst := take (snd dst) (m (fst dst)) @ mv # xs @ MOVE_NONE c
                        # drop (snd dst + length xs + 2) (m (fst dst))))"
proof -
  obtain a i where dst: "dst = (a, i)" by (cases dst)
  obtain b j where cp: "cp = (b, j)" by (cases cp)
  from assms(4) have i: "i < length (m a)" by (simp add: dst)
  define m' where "m' = m(a := (m a)[i := mv])"
  have m'a: "m' a = (m a)[i := mv]" by (simp add: m'_def)
  have m'b: "m' b = m b" using assms(1) by (simp add: m'_def dst cp)
  have st: "store m (a, i) mv = Inr m'" by (simp add: store_def i m'_def)
  have tk: "take (Suc i) ((m a)[i := mv]) = take i (m a) @ [mv]"
    using i by (simp add: take_Suc_conv_app_nth)
  have "update_pv_copy c m' (a, Suc i) (b, j) =
      Inr (m'(a := take (Suc i) (m' a) @ xs @ MOVE_NONE c # drop (Suc i + length xs + 1) (m' a)))"
    using assms by (intro update_pv_copy_line) (simp_all add: dst cp m'a m'b)
  also have "m'(a := take (Suc i) (m' a) @ xs @ MOVE_NONE c # drop (Suc i + length xs + 1) (m' a))
      = m(a := take i (m a) @ mv # xs @ MOVE_NONE c # drop (i + length xs + 2) (m a))"
    unfolding m'a tk by (simp add: m'_def)
  finally have "update_pv_copy c m' (a, Suc i) (b, j) =
      Inr (m(a := take i (m a) @ mv # xs @ MOVE_NONE c # drop (i + length xs + 2) (m a)))" .
  then show ?thesis
    by (simp add: update_pv_def st next_ptr_def dst cp fun_upd_def)
qed

lemma update_pv_null:
  assumes "snd dst + 2 \<le> length (m (fst dst))"
  shows "update_pv c m dst mv None =
     Inr (m(fst dst := take (snd dst) (m (fst dst)) @ mv # MOVE_NONE c
                        # drop (snd dst + 2) (m (fst dst))))"
proof -
  obtain a i where dst: "dst = (a, i)" by (cases dst)
  from assms have i: "Suc i < length (m a)" by (simp add: dst)
  have "(m a)[i := mv, Suc i := MOVE_NONE c]
        = take i (m a) @ mv # MOVE_NONE c # drop (i + 2) (m a)"
    using i by (simp add: upd_conv_take_nth_drop take_Suc_conv_app_nth)
  then show ?thesis
    using i by (simp add: update_pv_def store_def next_ptr_def dst)
qed

text \<open>
  C10. \<^verbatim>\<open>update_pv(pv, m, childPv)\<close>, for a child array that holds the moves \<open>xs\<close> and then
  \<^verbatim>\<open>MOVE_NONE\<close> from where \<^verbatim>\<open>childPv\<close> points, and a destination array, another one, with room
  for \<open>length xs + 2\<close> moves from where \<^verbatim>\<open>pv\<close> points: afterwards the destination holds
  \<open>m\<close>, then \<open>xs\<close>, then \<^verbatim>\<open>MOVE_NONE\<close> there, and nothing else in memory has changed. When
  \<^verbatim>\<open>childPv\<close> is null the destination holds \<open>m\<close> and \<^verbatim>\<open>MOVE_NONE\<close>.
\<close>

theorem update_pv_result:
  "(fst dst \<noteq> fst cp \<and> drop (snd cp) (m (fst cp)) = xs @ MOVE_NONE c # rest
      \<and> MOVE_NONE c \<notin> set xs \<and> snd dst + length xs + 2 \<le> length (m (fst dst))
    \<longrightarrow> update_pv c m dst mv (Some cp) =
          Inr (m(fst dst := take (snd dst) (m (fst dst)) @ mv # xs @ MOVE_NONE c
                             # drop (snd dst + length xs + 2) (m (fst dst)))))
   \<and> (snd dst + 2 \<le> length (m (fst dst))
    \<longrightarrow> update_pv c m dst mv None =
          Inr (m(fst dst := take (snd dst) (m (fst dst)) @ mv # MOVE_NONE c
                             # drop (snd dst + 2) (m (fst dst)))))"
  using update_pv_line [of dst cp m xs c rest mv] update_pv_null [of dst m c mv]
  by blast

theorem update_pv_result_witness:
  "update_pv types_h two_lines (0, 0) 42 (Some (1, 0))
     = Inr (two_lines(0 := [42, 77, 88, 0, 0, 0]))
   \<and> update_pv types_h two_lines (0, 0) 42 None
     = Inr (two_lines(0 := [42, 0, 0, 0, 0, 0]))"
  using update_pv_result [of "(0, 0)" "(1, 0)" two_lines "[77, 88]" types_h "[5]" 42]
  by (simp add: two_lines_def types_h_def)

section \<open>Properties of the aspiration loop\<close>














section \<open>Properties of the search\<close>

subsection \<open>The loop over the moves, a stop and the values returned\<close>



















text \<open>
  For comparison, the same step without a stop, at a PV node whose move 42 comes back
  with 60 inside the window \<open>(40, 100)\<close>: the best move, the best value, alpha and the
  line of the node all change.
\<close>

lemma check_new_best_not_stopped:
  "check_new_best types_h PV False 42 60 False (engine0, frame0\<lparr>alpha := 40, beta := 100\<rparr>)
     = Inr (Next,
            engine0\<lparr>pv_mem := two_lines(0 := [42, 77, 88, 0, 0, 0])\<rparr>,
            frame0\<lparr>alpha := 60, beta := 100, bestValue := 60, bestMove := 42\<rparr>)"
proof -
  have "update_pv types_h two_lines (0, 0) 42 (Some (1, 0))
          = Inr (two_lines(0 := [42, 77, 88, 0, 0, 0]))"
    using update_pv_line [of "(0, 0)" "(1, 0)" two_lines "[77, 88]" types_h "[5]" 42]
    by (simp add: two_lines_def types_h_def)
  then show ?thesis
    by (simp add: check_new_best_def remember_searched_def frame0_def engine0_def)
qed

text \<open>
  C5. A node of \<^verbatim>\<open>search\<close> that is not the root (\<open>depth > 0\<close>, as nodes of depth zero or
  less are handed to \<^verbatim>\<open>qsearch\<close>) and whose position has a game cycle at its ply: when
  \<open>VALUE_DRAW \<ge> beta\<close> it saves \<^verbatim>\<open>VALUE_DRAW\<close> with \<^verbatim>\<open>BOUND_UPPER\<close>, the depth of the node,
  \<^verbatim>\<open>MOVE_NONE\<close> and \<^verbatim>\<open>VALUE_NONE\<close> in the transposition table and returns \<^verbatim>\<open>VALUE_DRAW\<close>;
  otherwise it sets \<^verbatim>\<open>gameCycle\<close>, raises alpha to \<open>max alpha VALUE_DRAW\<close> and goes on
  with the check for a draw.
\<close>

theorem search_game_cycle:
  assumes "nt \<noteq> Root" and "0 < depth f" and "has_game_cycle pos (ply f)"
  shows "(VALUE_DRAW c \<ge> beta f \<longrightarrow>
           search_prologue c nt pos stop (e, f) =
             (Return (VALUE_DRAW c),
              e\<lparr>tt_saves := tt_saves e @
                  [\<lparr> sv_key = posKey f, sv_value = VALUE_DRAW c, sv_pv = ttPv f,
                     sv_bound = BOUND_UPPER, sv_depth = depth f, sv_move = MOVE_NONE c,
                     sv_eval = VALUE_NONE c \<rparr>]\<rparr>,
              f))
       \<and> (VALUE_DRAW c < beta f \<longrightarrow>
           search_cycle_check c pos (e, f) =
             (Next, e, f\<lparr>gameCycle := True, alpha := max (alpha f) (VALUE_DRAW c)\<rparr>)
           \<and> search_prologue c nt pos stop (e, f) =
             (case search_draw_check c pos stop
                     (f\<lparr>gameCycle := True, alpha := max (alpha f) (VALUE_DRAW c)\<rparr>) of
                Next \<Rightarrow>
                  (search_mate_distance c
                     (f\<lparr>gameCycle := True, alpha := max (alpha f) (VALUE_DRAW c)\<rparr>),
                   e, f\<lparr>gameCycle := True, alpha := max (alpha f) (VALUE_DRAW c)\<rparr>)
              | r \<Rightarrow> (r, e, f\<lparr>gameCycle := True, alpha := max (alpha f) (VALUE_DRAW c)\<rparr>)))"
  using assms by (simp add: search_prologue_def search_cycle_check_def)

theorem search_game_cycle_witness:
  "search_prologue types_h NonPV cycle_pos False (engine0, frame0\<lparr>alpha := - 51, beta := - 50\<rparr>)
     = (Return 0,
        engine0\<lparr>tt_saves :=
          [\<lparr> sv_key = 12345, sv_value = 0, sv_pv = False, sv_bound = BOUND_UPPER,
             sv_depth = 3, sv_move = 0, sv_eval = 32002 \<rparr>]\<rparr>,
        frame0\<lparr>alpha := - 51, beta := - 50\<rparr>)
   \<and> search_cycle_check types_h cycle_pos (engine0, frame0\<lparr>alpha := - 20, beta := 50\<rparr>)
     = (Next, engine0, frame0\<lparr>alpha := 0, beta := 50, gameCycle := True\<rparr>)"
  using search_game_cycle [of NonPV "frame0\<lparr>alpha := - 51, beta := - 50\<rparr>" cycle_pos types_h
          False engine0]
        search_game_cycle [of NonPV "frame0\<lparr>alpha := - 20, beta := 50\<rparr>" cycle_pos types_h
          False engine0]
  by (simp add: types_h_def cycle_pos_def frame0_def engine0_def)

text \<open>
  C7. When the loop over the moves of \<^verbatim>\<open>search\<close> ends with \<^verbatim>\<open>moveCount\<close> zero, the function
  returns alpha when an excluded move is set, else \<^verbatim>\<open>mated_in(ply)\<close> when the side to move
  is in check, else \<^verbatim>\<open>VALUE_DRAW\<close>.
\<close>

theorem no_move_explored:
  assumes "moveCount f = 0"
  shows "fst (search_epilogue c nt (e, f)) =
           (if excludedMove f \<noteq> 0 then alpha f
            else if inCheck f then mated_in c (ply f)
            else VALUE_DRAW c)"
  using assms by (simp add: search_epilogue_def Let_def)

theorem no_move_explored_witness:
  "moveCount frame0 = 0
   \<and> fst (search_epilogue types_h NonPV (engine0, frame0\<lparr>excludedMove := 77\<rparr>)) = 49
   \<and> fst (search_epilogue types_h NonPV (engine0, frame0\<lparr>inCheck := True\<rparr>)) = - 31996
   \<and> fst (search_epilogue types_h NonPV (engine0, frame0)) = 0"
  using no_move_explored [of "frame0\<lparr>excludedMove := 77\<rparr>" types_h NonPV engine0]
        no_move_explored [of "frame0\<lparr>inCheck := True\<rparr>" types_h NonPV engine0]
        no_move_explored [of frame0 types_h NonPV engine0]
  by (simp add: types_h_def frame0_def)

text \<open>
  C6, as stated: a node that is not a PV node, has no excluded move and no game cycle, is
  not in check, with \<open>depth < 6\<close>, \<open>\<bar>alpha\<bar> < VALUE_KNOWN_WIN\<close>, \<open>eval < VALUE_KNOWN_WIN\<close>
  and \<open>eval - 214 * (depth - improving) \<ge> beta\<close>, returns \<open>eval\<close>. The node below meets
  all of this inside the verification search of the null move, where \<^verbatim>\<open>nmpGuard\<close> is set,
  and the pruning is not tried: control goes on to the next step.
\<close>

theorem futility_pruning_guard_counterexample:
  "\<not> inCheck frame0 \<and> excludedMove frame0 = 0 \<and> \<not> gameCycle frame0 \<and> depth frame0 < 6
   \<and> \<bar>alpha frame0\<bar> < VALUE_KNOWN_WIN types_h \<and> eval frame0 < VALUE_KNOWN_WIN types_h
   \<and> eval frame0
        - 214 * (depth frame0 - (if improving_of types_h frame0 then 1 else 0)) \<ge> beta frame0
   \<and> fst (futility_pruning types_h NonPV quiet_pos (engine0\<lparr>nmpGuard := True\<rparr>) frame0) = Next
   \<and> fst (futility_pruning types_h NonPV quiet_pos (engine0\<lparr>nmpGuard := True\<rparr>) frame0)
        \<noteq> Return (eval frame0)"
  by (simp add: futility_pruning_def improving_of_def frame0_def engine0_def types_h_def
        quiet_pos_def Let_def)

text \<open>
  C6, amended. Such a node returns \<open>eval\<close> when, in addition, the thread is not in the
  verification search of the null move (\<^verbatim>\<open>nmpGuard\<close> clear), \<^verbatim>\<open>fullSearch\<close> is off,
  \<open>\<bar>eval\<bar> < 2 * VALUE_KNOWN_WIN\<close>, and the position is not one of king danger at a root
  depth above 10. The margin is \<open>futility_margin depth improving = 214 * (depth - improving)\<close>,
  with \<open>improving\<close> counted as 0 or 1.
\<close>

theorem futility_pruning_returns_eval:
  assumes "nt = NonPV" and "excludedMove f = 0" and "\<not> gameCycle f" and "\<not> inCheck f"
    and "depth f < 6" and "\<bar>alpha f\<bar> < VALUE_KNOWN_WIN c" and "eval f < VALUE_KNOWN_WIN c"
    and "eval f - 214 * (depth f - (if improving_of c f then 1 else 0)) \<ge> beta f"
    and "\<not> nmpGuard e" and "\<not> fullSearch e" and "\<bar>eval f\<bar> < 2 * VALUE_KNOWN_WIN c"
    and "\<not> (rootDepth e > 10 \<and> king_danger pos)"
  shows "fst (futility_pruning c nt pos e f) = Return (eval f)
       \<and> futility_margin d i = 214 * (d - (if i then 1 else 0))"
  using assms by (simp add: futility_pruning_def futility_margin_def Let_def)

theorem futility_pruning_returns_eval_witness:
  "\<not> inCheck frame0 \<and> excludedMove frame0 = 0 \<and> \<not> gameCycle frame0 \<and> depth frame0 < 6
   \<and> \<bar>alpha frame0\<bar> < VALUE_KNOWN_WIN types_h \<and> eval frame0 < VALUE_KNOWN_WIN types_h
   \<and> eval frame0
        - 214 * (depth frame0 - (if improving_of types_h frame0 then 1 else 0)) \<ge> beta frame0
   \<and> \<not> nmpGuard engine0 \<and> \<not> fullSearch engine0
   \<and> \<bar>eval frame0\<bar> < 2 * VALUE_KNOWN_WIN types_h
   \<and> fst (futility_pruning types_h NonPV quiet_pos engine0 frame0) = Return 800"
  using futility_pruning_returns_eval [of NonPV frame0 types_h engine0 quiet_pos 3 True]
  by (simp add: improving_of_def frame0_def engine0_def types_h_def quiet_pos_def)

text \<open>
  C8, as stated: at a node of \<^verbatim>\<open>qsearch\<close> whose position has a game cycle and with
  \<open>VALUE_DRAW \<ge> beta\<close>, \<^verbatim>\<open>VALUE_DRAW\<close> is stored in the transposition table with an upper
  bound before it is returned, as \<^verbatim>\<open>search\<close> does. At the node below \<^verbatim>\<open>search\<close> makes its
  call of \<^verbatim>\<open>save\<close> and \<^verbatim>\<open>qsearch\<close> returns the draw score with no call of \<^verbatim>\<open>save\<close> at all.
\<close>

theorem qsearch_cycle_store_counterexample:
  "has_game_cycle cycle_pos (ply (frame0\<lparr>alpha := - 51, beta := - 50\<rparr>))
   \<and> VALUE_DRAW types_h \<ge> beta (frame0\<lparr>alpha := - 51, beta := - 50\<rparr>)
   \<and> fst (qsearch_cycle_check types_h cycle_pos (engine0, frame0\<lparr>alpha := - 51, beta := - 50\<rparr>))
        = Return 0
   \<and> tt_saves (fst (snd (qsearch_cycle_check types_h cycle_pos
                           (engine0, frame0\<lparr>alpha := - 51, beta := - 50\<rparr>)))) = []
   \<and> length (tt_saves (fst (snd (search_cycle_check types_h cycle_pos
                           (engine0, frame0\<lparr>alpha := - 51, beta := - 50\<rparr>))))) = 1"
  by (simp add: qsearch_cycle_check_def search_cycle_check_def frame0_def engine0_def
        types_h_def cycle_pos_def)

text \<open>
  C8, amended. At a node of \<^verbatim>\<open>qsearch\<close> whose position has a game cycle at its ply: when
  \<open>VALUE_DRAW \<ge> beta\<close> the function returns \<^verbatim>\<open>VALUE_DRAW\<close> and writes nothing to the
  transposition table; otherwise it raises alpha to \<open>max alpha VALUE_DRAW\<close>, sets the
  cycle flag and goes on.
\<close>

theorem qsearch_game_cycle:
  assumes "has_game_cycle pos (ply f)"
  shows "(VALUE_DRAW c \<ge> beta f \<longrightarrow>
            qsearch_cycle_check c pos (e, f) = (Return (VALUE_DRAW c), e, f))
       \<and> (VALUE_DRAW c < beta f \<longrightarrow>
            qsearch_cycle_check c pos (e, f) =
              (Next, e, f\<lparr>alpha := max (alpha f) (VALUE_DRAW c), gameCycle := True\<rparr>))"
  using assms by (simp add: qsearch_cycle_check_def)

theorem qsearch_game_cycle_witness:
  "qsearch_cycle_check types_h cycle_pos (engine0, frame0\<lparr>alpha := - 51, beta := - 50\<rparr>)
     = (Return 0, engine0, frame0\<lparr>alpha := - 51, beta := - 50\<rparr>)
   \<and> qsearch_cycle_check types_h cycle_pos (engine0, frame0\<lparr>alpha := - 20, beta := 50\<rparr>)
     = (Next, engine0, frame0\<lparr>alpha := 0, beta := 50, gameCycle := True\<rparr>)"
  using qsearch_game_cycle [of cycle_pos "frame0\<lparr>alpha := - 51, beta := - 50\<rparr>" types_h engine0]
        qsearch_game_cycle [of cycle_pos "frame0\<lparr>alpha := - 20, beta := 50\<rparr>" types_h engine0]
  by (simp add: types_h_def cycle_pos_def frame0_def)

end
